theory Spec2Isabelle
  imports Main "HOL-Library.Word"
begin

section \<open>Data model (pkg/process/model.go and the fields the handlers use)\<close>

text \<open>
  Go's \<open>uint\<close> and \<open>int\<close> are 64-bit: both are \<open>64 word\<close>, read with \<open>sint\<close> where the
  source compares signed values. The two enum types are Go string types, so they are
  strings here, with the source's constants.

  The handlers address the date of a registration and of a schedule through the fields
  \<open>Year\<close>, \<open>Month\<close> and \<open>Day\<close>; the records carry the fields the handlers use.
  The association fields (\<open>Doctors\<close>, \<open>Schedules\<close>, \<open>MileStones\<close>) are not columns and
  are left out. \<open>account.Doctor\<close>, \<open>account.Patient\<close> and \<open>account.Account\<close> belong to
  another package; they carry the columns the handlers read.
\<close>

type_synonym uint = "64 word"
type_synonym go_int = "64 word"
type_synonym RegistrationStatusEnum = string
type_synonym HalfDayEnum = string

definition committed :: RegistrationStatusEnum where "committed = ''committed''"
definition accepted :: RegistrationStatusEnum where "accepted = ''accepted''"
definition terminated :: RegistrationStatusEnum where "terminated = ''terminated''"

definition morning :: HalfDayEnum where "morning = ''morning''"
definition afternoon :: HalfDayEnum where "afternoon = ''afternoon''"
definition whole :: HalfDayEnum where "whole = ''whole''"

record Department =
  dep_ID :: uint
  dep_Name :: string
  dep_Detail :: string

record Registration =
  reg_ID :: uint
  reg_DoctorID :: uint
  reg_PatientID :: uint
  reg_DepartmentID :: uint
  reg_Year :: go_int
  reg_Month :: go_int
  reg_Day :: go_int
  reg_HalfDay :: HalfDayEnum
  reg_Status :: RegistrationStatusEnum
  reg_TerminatedCause :: string

record MileStone =
  ms_ID :: uint
  ms_RegistrationID :: uint
  ms_Activity :: string
  ms_Checked :: bool

record DepartmentSchedule =
  sch_ID :: uint
  sch_DepartmentID :: uint
  sch_Year :: go_int
  sch_Month :: go_int
  sch_Day :: go_int
  sch_HalfDay :: HalfDayEnum
  sch_Capacity :: go_int
  sch_Current :: go_int

record Doctor =
  doc_ID :: uint
  doc_AccountID :: uint
  doc_DepartmentID :: uint

record Patient =
  pat_ID :: uint
  pat_AccountID :: uint

record Account =
  acc_ID :: uint
  acc_FirstName :: string
  acc_LastName :: string

text \<open>
  The database behind \<open>utils.GetDB()\<close>: one list of rows per table, in primary-key
  order (the order of \<open>ORDER BY id\<close>, which \<open>First\<close> uses, and of insertion).
\<close>

record DB =
  departments :: "Department list"
  patients :: "Patient list"
  doctors :: "Doctor list"
  accounts :: "Account list"
  registrations :: "Registration list"
  schedules :: "DepartmentSchedule list"
  milestones :: "MileStone list"

text \<open>The zero values a Go struct keeps when \<open>First\<close> finds no row.\<close>

definition zero_Registration :: Registration where
  "zero_Registration = \<lparr>reg_ID = 0, reg_DoctorID = 0, reg_PatientID = 0, reg_DepartmentID = 0,
     reg_Year = 0, reg_Month = 0, reg_Day = 0, reg_HalfDay = [], reg_Status = [],
     reg_TerminatedCause = []\<rparr>"

definition zero_MileStone :: MileStone where
  "zero_MileStone = \<lparr>ms_ID = 0, ms_RegistrationID = 0, ms_Activity = [], ms_Checked = False\<rparr>"

definition zero_DepartmentSchedule :: DepartmentSchedule where
  "zero_DepartmentSchedule = \<lparr>sch_ID = 0, sch_DepartmentID = 0, sch_Year = 0, sch_Month = 0,
     sch_Day = 0, sch_HalfDay = [], sch_Capacity = 0, sch_Current = 0\<rparr>"

definition zero_Doctor :: Doctor where
  "zero_Doctor = \<lparr>doc_ID = 0, doc_AccountID = 0, doc_DepartmentID = 0\<rparr>"

definition zero_Account :: Account where
  "zero_Account = \<lparr>acc_ID = 0, acc_FirstName = [], acc_LastName = []\<rparr>"

section \<open>The request context and what the handlers answer\<close>

record RegistrationSubmitJSON =
  sub_DepartmentID :: uint
  sub_Year :: go_int
  sub_Month :: go_int
  sub_Day :: go_int
  sub_HalfDay :: HalfDayEnum

text \<open>
  The part of \<open>echo.Context\<close> the handlers read: path parameters and query parameters
  (a missing one is the empty string), the result of \<open>c.Bind\<close> on the body (\<open>None\<close> when
  it returns an error), and the account id the session stored under \<open>"id"\<close>.
\<close>

record Ctx =
  Param :: "string \<Rightarrow> string"
  QueryParam :: "string \<Rightarrow> string"
  Bind :: "RegistrationSubmitJSON option"
  Get_id :: uint

text \<open>
  What the handlers leave to their surroundings: the \<open>halfday\<close> validator registered on
  \<open>validate\<close> and \<open>validateSchedule\<close> (both declared outside the two source files, the
  second one reads the clock), and whether the store's \<open>Create\<close> and \<open>Save\<close> return an
  error on this request.

  The last three fields are the store's part in \<open>db.First(&x, str)\<close> and
  \<open>db.Delete(&x, str)\<close> when \<open>str\<close> is a request parameter that is neither empty nor a
  number: GORM then sends the string to the store as the condition of the statement on
  the table of \<open>x\<close>. The store decides which row such a statement returns and what it
  leaves in the table (a store that runs a further statement carried by the condition
  changes the table): \<open>raw_First_MileStone str rows\<close> is the row returned and the table
  after, for the table \<open>rows\<close> before, and likewise for the other two.
\<close>

record Env =
  validate_halfday :: "HalfDayEnum \<Rightarrow> bool"
  validateSchedule :: "DepartmentSchedule \<Rightarrow> bool"
  Create_fails :: bool
  Save_fails :: bool
  raw_First_MileStone :: "string \<Rightarrow> MileStone list \<Rightarrow> MileStone option \<times> MileStone list"
  raw_First_Registration :: "string \<Rightarrow> Registration list \<Rightarrow> Registration option \<times> Registration list"
  raw_Delete_MileStone :: "string \<Rightarrow> MileStone list \<Rightarrow> MileStone list"

text \<open>The message constants of the package (declared outside the two source files).\<close>

datatype Msg = InvalidSubmitFormat | DepartmentNotFound | PatientNotFound
  | DuplicateRegistration | InvalidSchedule | NotEnoughCapacity | CannotAssignDoctor
  | InvalidRegistration

datatype Data = Const Msg | GoError | Text string | NoData

text \<open>\<open>c.JSON(status, api.Return(tag, data))\<close> with a status of 400 or more.\<close>

datatype error = Error nat string Data

record RegistrationSuccessJSON =
  ok_ID :: uint
  ok_Department :: string
  ok_Doctor :: string
  ok_Patient :: string
  ok_Year :: go_int
  ok_Month :: go_int
  ok_Day :: go_int
  ok_HalfDay :: HalfDayEnum

text \<open>The operations on \<open>registrationMutex\<close> and the writes to the store, in program order.\<close>

datatype event = Lock | Unlock | db_Create | db_Save

section \<open>strconv\<close>

definition digit :: "char \<Rightarrow> nat option" where
  "digit ch = (let n = (of_char ch :: nat) in if 48 \<le> n \<and> n \<le> 57 then Some (n - 48) else None)"

fun digits :: "string \<Rightarrow> nat \<Rightarrow> nat option" where
  "digits [] n = Some n"
| "digits (ch # s) n = (case digit ch of None \<Rightarrow> None | Some d \<Rightarrow> digits s (n * 10 + d))"

text \<open>
  \<open>strconv.Atoi\<close>: an optional sign, then one decimal digit or more, and a value that
  fits the 64-bit \<open>int\<close>; anything else is an error.
\<close>

definition Atoi :: "string \<Rightarrow> int option" where
  "Atoi s = (case s of
       [] \<Rightarrow> None
     | ch # rest \<Rightarrow>
         if ch = CHR ''-'' then
           (if rest = [] then None
            else case digits rest 0 of
                   None \<Rightarrow> None
                 | Some n \<Rightarrow> if n \<le> 2 ^ 63 then Some (- int n) else None)
         else if ch = CHR ''+'' then
           (if rest = [] then None
            else case digits rest 0 of
                   None \<Rightarrow> None
                 | Some n \<Rightarrow> if n < 2 ^ 63 then Some (int n) else None)
         else
           (case digits s 0 of
              None \<Rightarrow> None
            | Some n \<Rightarrow> if n < 2 ^ 63 then Some (int n) else None))"

text \<open>\<open>strconv.ParseUint(s, 10, 64)\<close>: decimal digits only, at least one, below \<open>2 ^ 64\<close>.\<close>

definition ParseUint :: "string \<Rightarrow> uint option" where
  "ParseUint s = (if s = [] then None
     else case digits s 0 of
            None \<Rightarrow> None
          | Some n \<Rightarrow> if n < 2 ^ 64 then Some (word_of_nat n) else None)"

definition ParseBool :: "string \<Rightarrow> bool option" where
  "ParseBool s =
     (if s \<in> set [''1'', ''t'', ''T'', ''TRUE'', ''true'', ''True''] then Some True
      else if s \<in> set [''0'', ''f'', ''F'', ''FALSE'', ''false'', ''False''] then Some False
      else None)"

definition StrToUInt :: "string \<Rightarrow> uint" where
  "StrToUInt str = (case Atoi str of None \<Rightarrow> 0 | Some i \<Rightarrow> word_of_int i)"

section \<open>The store\<close>

text \<open>
  A struct condition, \<open>db.Where(&Registration{...})\<close>, compares the fields of the struct
  that are not the zero value of their type, and no others: this is how GORM builds the
  \<open>WHERE\<close> clause from a struct. A field the handler leaves out is zero, so it is not
  compared; a field the handler sets to a zero value is not compared either.
\<close>

definition where_Registration :: "Registration \<Rightarrow> Registration \<Rightarrow> bool" where
  "where_Registration q r \<longleftrightarrow>
     (reg_ID q = 0 \<or> reg_ID r = reg_ID q) \<and>
     (reg_DoctorID q = 0 \<or> reg_DoctorID r = reg_DoctorID q) \<and>
     (reg_PatientID q = 0 \<or> reg_PatientID r = reg_PatientID q) \<and>
     (reg_DepartmentID q = 0 \<or> reg_DepartmentID r = reg_DepartmentID q) \<and>
     (reg_Year q = 0 \<or> reg_Year r = reg_Year q) \<and>
     (reg_Month q = 0 \<or> reg_Month r = reg_Month q) \<and>
     (reg_Day q = 0 \<or> reg_Day r = reg_Day q) \<and>
     (reg_HalfDay q = [] \<or> reg_HalfDay r = reg_HalfDay q) \<and>
     (reg_Status q = [] \<or> reg_Status r = reg_Status q) \<and>
     (reg_TerminatedCause q = [] \<or> reg_TerminatedCause r = reg_TerminatedCause q)"

definition where_DepartmentSchedule :: "DepartmentSchedule \<Rightarrow> DepartmentSchedule \<Rightarrow> bool" where
  "where_DepartmentSchedule q s \<longleftrightarrow>
     (sch_ID q = 0 \<or> sch_ID s = sch_ID q) \<and>
     (sch_DepartmentID q = 0 \<or> sch_DepartmentID s = sch_DepartmentID q) \<and>
     (sch_Year q = 0 \<or> sch_Year s = sch_Year q) \<and>
     (sch_Month q = 0 \<or> sch_Month s = sch_Month q) \<and>
     (sch_Day q = 0 \<or> sch_Day s = sch_Day q) \<and>
     (sch_HalfDay q = [] \<or> sch_HalfDay s = sch_HalfDay q) \<and>
     (sch_Capacity q = 0 \<or> sch_Capacity s = sch_Capacity q) \<and>
     (sch_Current q = 0 \<or> sch_Current s = sch_Current q)"

text \<open>\<open>db.Model(&Registration{}).Where(&q).Count(&n)\<close>; the count is an \<open>int64\<close>.\<close>

definition Count_Registration :: "DB \<Rightarrow> Registration \<Rightarrow> int" where
  "Count_Registration db q = int (length (filter (where_Registration q) (registrations db)))"

text \<open>The next value of an auto-increment primary key.\<close>

definition next_ID :: "uint list \<Rightarrow> uint" where
  "next_ID ids = fold max ids 0 + 1"

text \<open>
  \<open>db.Create(&registration)\<close> when it returns no error: the row gets its primary key
  (the struct's \<open>ID\<close> is zero) and the column default \<open>committed\<close> for an empty status,
  and is appended to the table. The struct is updated with both.
\<close>

definition Create_Registration :: "DB \<Rightarrow> Registration \<Rightarrow> Registration \<times> DB" where
  "Create_Registration db r =
     (let r' = r\<lparr>reg_ID := (if reg_ID r = 0 then next_ID (map reg_ID (registrations db))
                              else reg_ID r),
                  reg_Status := (if reg_Status r = [] then committed else reg_Status r)\<rparr>
      in (r', db\<lparr>registrations := registrations db @ [r']\<rparr>))"

definition Create_MileStone :: "DB \<Rightarrow> MileStone \<Rightarrow> MileStone \<times> DB" where
  "Create_MileStone db m =
     (let m' = m\<lparr>ms_ID := (if ms_ID m = 0 then next_ID (map ms_ID (milestones db))
                            else ms_ID m)\<rparr>
      in (m', db\<lparr>milestones := milestones db @ [m']\<rparr>))"

text \<open>
  \<open>db.Save(&schedule)\<close> when it returns no error, for a struct read from the table:
  every column of the row with the struct's primary key is overwritten.
\<close>

definition Save_DepartmentSchedule :: "DB \<Rightarrow> DepartmentSchedule \<Rightarrow> DB" where
  "Save_DepartmentSchedule db s =
     db\<lparr>schedules := map (\<lambda>row. if sch_ID row = sch_ID s then s else row) (schedules db)\<rparr>"

text \<open>\<open>db.First(&x, id)\<close> with a number: the row with that primary key.\<close>

definition First_Registration :: "DB \<Rightarrow> uint \<Rightarrow> Registration option" where
  "First_Registration db k = find (\<lambda>r. reg_ID r = k) (registrations db)"

definition First_MileStone :: "DB \<Rightarrow> uint \<Rightarrow> MileStone option" where
  "First_MileStone db k = find (\<lambda>m. ms_ID m = k) (milestones db)"

definition First_Doctor :: "DB \<Rightarrow> uint \<Rightarrow> Doctor option" where
  "First_Doctor db k = find (\<lambda>d. doc_ID d = k) (doctors db)"

definition First_Account :: "DB \<Rightarrow> uint \<Rightarrow> Account option" where
  "First_Account db k = find (\<lambda>a. acc_ID a = k) (accounts db)"

definition First_Department :: "DB \<Rightarrow> uint \<Rightarrow> Department option" where
  "First_Department db k = find (\<lambda>d. dep_ID d = k) (departments db)"

text \<open>
  \<open>db.First(&x, str)\<close> with a request parameter, passed as it comes. GORM looks at the
  string: the empty string is no condition, so the first row of the table (in
  primary-key order) is returned; a string that \<open>strconv.Atoi\<close> accepts (a decimal
  number, with or without a sign) is compared with the primary key; any other string
  is the condition of the statement, which the store runs (\<open>raw_First_\<close>... of \<open>Env\<close>).
  The row found, if any, and the database after are returned.
\<close>

definition First_Registration_str :: "Env \<Rightarrow> DB \<Rightarrow> string \<Rightarrow> Registration option \<times> DB" where
  "First_Registration_str env db s =
     (if s = [] then
        (case registrations db of [] \<Rightarrow> None | r # rest \<Rightarrow> Some r, db)
      else
        (case Atoi s of
           Some i \<Rightarrow> (find (\<lambda>r. int (unat (reg_ID r)) = i) (registrations db), db)
         | None \<Rightarrow>
             (let (found, rows) = raw_First_Registration env s (registrations db)
              in (found, db\<lparr>registrations := rows\<rparr>))))"

definition First_MileStone_str :: "Env \<Rightarrow> DB \<Rightarrow> string \<Rightarrow> MileStone option \<times> DB" where
  "First_MileStone_str env db s =
     (if s = [] then
        (case milestones db of [] \<Rightarrow> None | m # rest \<Rightarrow> Some m, db)
      else
        (case Atoi s of
           Some i \<Rightarrow> (find (\<lambda>m. int (unat (ms_ID m)) = i) (milestones db), db)
         | None \<Rightarrow>
             (let (found, rows) = raw_First_MileStone env s (milestones db)
              in (found, db\<lparr>milestones := rows\<rparr>))))"

text \<open>
  \<open>db.Delete(&MileStone{}, str)\<close> with a request parameter: with the empty string there
  is no condition and GORM deletes nothing; a string that \<open>strconv.Atoi\<close> accepts deletes
  the row with that primary key; any other string is the condition of the statement,
  which the store runs (\<open>raw_Delete_MileStone\<close> of \<open>Env\<close>).
\<close>

definition Delete_MileStone_str :: "Env \<Rightarrow> DB \<Rightarrow> string \<Rightarrow> DB" where
  "Delete_MileStone_str env db s =
     (if s = [] then db
      else
        (case Atoi s of
           Some i \<Rightarrow> db\<lparr>milestones := filter (\<lambda>m. int (unat (ms_ID m)) \<noteq> i) (milestones db)\<rparr>
         | None \<Rightarrow> db\<lparr>milestones := raw_Delete_MileStone env s (milestones db)\<rparr>))"

text \<open>A struct that \<open>First\<close> does not fill keeps its zero value; the handlers that
  ignore the error of \<open>First\<close> go on with it.\<close>

definition or_zero :: "'a \<Rightarrow> 'a option \<Rightarrow> 'a" where
  "or_zero z x = (case x of None \<Rightarrow> z | Some v \<Rightarrow> v)"

section \<open>CreateRegistration\<close>

text \<open>
  The loop that looks for the smallest count: \<open>i\<close> is the index, the pair is
  \<open>(minCount, minIndex)\<close>.
\<close>

fun find_min :: "int list \<Rightarrow> int \<Rightarrow> int \<times> int \<Rightarrow> int \<times> int" where
  "find_min [] i acc = acc"
| "find_min (n # ns) i (minCount, minIndex) =
     find_min ns (i + 1) (if minCount > n then (n, i) else (minCount, minIndex))"

definition MaxInt64 :: int where
  "MaxInt64 = 9223372036854775807"

definition duplicate_query :: "Department \<Rightarrow> Patient \<Rightarrow> RegistrationSubmitJSON \<Rightarrow> Registration" where
  "duplicate_query department patient submit =
     zero_Registration\<lparr>reg_DepartmentID := dep_ID department, reg_PatientID := pat_ID patient,
       reg_Year := sub_Year submit, reg_Month := sub_Month submit, reg_Day := sub_Day submit,
       reg_HalfDay := sub_HalfDay submit\<rparr>"

definition schedule_query :: "Department \<Rightarrow> RegistrationSubmitJSON \<Rightarrow> DepartmentSchedule" where
  "schedule_query department submit =
     zero_DepartmentSchedule\<lparr>sch_DepartmentID := dep_ID department, sch_Year := sub_Year submit,
       sch_Month := sub_Month submit, sch_Day := sub_Day submit,
       sch_HalfDay := sub_HalfDay submit\<rparr>"

text \<open>The names in the answer: three lookups whose errors the handler ignores.\<close>

definition success_of :: "DB \<Rightarrow> Department \<Rightarrow> Registration \<Rightarrow> RegistrationSuccessJSON" where
  "success_of db department registration =
     (let patientAccount = or_zero zero_Account (First_Account db (reg_PatientID registration));
          doctor = or_zero zero_Doctor (First_Doctor db (reg_DoctorID registration));
          doctorAccount = or_zero zero_Account (First_Account db (doc_AccountID doctor))
      in \<lparr>ok_ID = reg_ID registration,
          ok_Department = dep_Name department,
          ok_Doctor = acc_LastName doctorAccount @ acc_FirstName doctorAccount,
          ok_Patient = acc_LastName patientAccount @ acc_FirstName patientAccount,
          ok_Year = reg_Year registration,
          ok_Month = reg_Month registration,
          ok_Day = reg_Day registration,
          ok_HalfDay = reg_HalfDay registration\<rparr>)"

text \<open>
  The part of the handler between \<open>registrationMutex.Lock()\<close> and the return: the
  schedule lookup, the capacity check, the choice of a doctor, the insert of the
  registration and the save of the schedule.
\<close>

definition admit ::
  "Env \<Rightarrow> DB \<Rightarrow> Department \<Rightarrow> Patient \<Rightarrow> RegistrationSubmitJSON
     \<Rightarrow> (error + RegistrationSuccessJSON) \<times> DB \<times> event list" where
  "admit env db department patient submit =
     (case find (where_DepartmentSchedule (schedule_query department submit)) (schedules db) of
        None \<Rightarrow> (Inl (Error 400 ''error'' (Const InvalidSchedule)), db, [Lock, Unlock])
      | Some schedule \<Rightarrow>
          if \<not> validateSchedule env schedule then
            (Inl (Error 400 ''error'' (Const InvalidSchedule)), db, [Lock, Unlock])
          else if sint (sch_Current schedule) \<ge> sint (sch_Capacity schedule) then
            (Inl (Error 400 ''error'' (Const NotEnoughCapacity)), db, [Lock, Unlock])
          else
            let doctors = filter (\<lambda>d. doc_DepartmentID d = dep_ID department) (doctors db);
                registration = zero_Registration\<lparr>reg_DepartmentID := dep_ID department,
                  reg_Year := sub_Year submit, reg_Month := sub_Month submit,
                  reg_Day := sub_Day submit, reg_HalfDay := sub_HalfDay submit\<rparr>;
                doctorRegistrationCount = map (\<lambda>doctor. Count_Registration db registration) doctors;
                (minCount, minIndex) = find_min doctorRegistrationCount 0 (MaxInt64, - 1)
            in if minIndex = - 1 then
                 (Inl (Error 400 ''error'' (Const CannotAssignDoctor)), db, [Lock, Unlock])
               else
                 let registration = registration\<lparr>reg_PatientID := pat_ID patient,
                       reg_DoctorID := doc_ID (doctors ! nat minIndex)\<rparr>
                 in if Create_fails env then
                      (Inl (Error 406 ''error'' (Const InvalidRegistration)), db, [Lock, Unlock])
                    else
                      let (registration, db) = Create_Registration db registration;
                          schedule = schedule\<lparr>sch_Current := sch_Current schedule + 1\<rparr>
                      in if Save_fails env then
                           (Inl (Error 400 ''error'' (Const InvalidSchedule)), db,
                            [Lock, db_Create, Unlock])
                         else
                           let db = Save_DepartmentSchedule db schedule
                           in (Inr (success_of db department registration), db,
                               [Lock, db_Create, db_Save, Unlock]))"

definition CreateRegistration ::
  "Env \<Rightarrow> Ctx \<Rightarrow> DB \<Rightarrow> (error + RegistrationSuccessJSON) \<times> DB \<times> event list" where
  "CreateRegistration env c db =
     (case Bind c of
        None \<Rightarrow> (Inl (Error 400 ''error'' (Const InvalidSubmitFormat)), db, [])
      | Some submit \<Rightarrow>
          (if \<not> validate_halfday env (sub_HalfDay submit) then
             (Inl (Error 400 ''error'' (Const InvalidSubmitFormat)), db, [])
           else
             (case First_Department db (sub_DepartmentID submit) of
                None \<Rightarrow> (Inl (Error 400 ''error'' (Const DepartmentNotFound)), db, [])
              | Some department \<Rightarrow>
                  (case find (\<lambda>p. pat_AccountID p = Get_id c) (patients db) of
                     None \<Rightarrow> (Inl (Error 400 ''error'' (Const PatientNotFound)), db, [])
                   | Some patient \<Rightarrow>
                       (let possibleDuplicates =
                              filter (where_Registration
                                        (duplicate_query department patient submit))
                                (registrations db)
                        in if list_ex (\<lambda>r. reg_Status r \<noteq> terminated) possibleDuplicates
                           then (Inl (Error 400 ''error'' (Const DuplicateRegistration)), db, [])
                           else admit env db department patient submit)))))"

section \<open>Status of a registration and milestones\<close>

text \<open>
  The handlers below return their answer and the database; the two update handlers
  also return the struct they hold in memory when they return, which is where their
  assignments go. The three access helpers return their answer and the database, which
  the lookup by a request parameter can change.
\<close>

definition UpdateRegistrationStatus :: "Ctx \<Rightarrow> DB \<Rightarrow> (error + nat) \<times> Registration option \<times> DB" where
  "UpdateRegistrationStatus c db =
     (case ParseUint (QueryParam c ''registrationID'') of
        None \<Rightarrow> (Inl (Error 400 ''error'' GoError), None, db)
      | Some registrationID \<Rightarrow>
          (let status = QueryParam c ''status'';
               terminatedCause = QueryParam c ''terminatedCause''
           in (case First_Registration db registrationID of
                 None \<Rightarrow> (Inl (Error 400 ''error'' GoError), None, db)
               | Some registration \<Rightarrow>
                   (let registration = registration\<lparr>reg_Status := status\<rparr>
                    in if status = terminated then
                         (if terminatedCause \<noteq> [] then
                            (Inr 201,
                             Some (registration\<lparr>reg_Status := status,
                                     reg_TerminatedCause := terminatedCause\<rparr>), db)
                          else
                            (Inl (Error 400 ''ok'' (Text ''Missing terminated causes'')),
                             Some registration, db))
                       else (Inr 201, Some (registration\<lparr>reg_Status := status\<rparr>), db)))))"


definition DoctorAccessToMileStone :: "Env \<Rightarrow> Ctx \<Rightarrow> DB \<Rightarrow> bool \<times> DB" where
  "DoctorAccessToMileStone env c db =
     (let (found, db) = First_MileStone_str env db (Param c ''mileStoneID'');
          mileStone = or_zero zero_MileStone found;
          registrations = or_zero zero_Registration
                            (First_Registration db (ms_RegistrationID mileStone))
      in (if StrToUInt (Param c ''DoctorID'') = reg_DoctorID registrations then True else False,
          db))"

definition DoctorAccessToRegistration :: "Env \<Rightarrow> Ctx \<Rightarrow> DB \<Rightarrow> bool \<times> DB" where
  "DoctorAccessToRegistration env c db =
     (let (found, db) = First_Registration_str env db (Param c ''registrationID'');
          registrations = or_zero zero_Registration found
      in (if StrToUInt (Param c ''DoctorID'') = reg_DoctorID registrations then True else False,
          db))"

definition PatientAccessToRegistration :: "Env \<Rightarrow> Ctx \<Rightarrow> DB \<Rightarrow> bool \<times> DB" where
  "PatientAccessToRegistration env c db =
     (let (found, db) = First_Registration_str env db (Param c ''registrationID'');
          registrations = or_zero zero_Registration found
      in (if StrToUInt (Param c ''PatientID'') = reg_PatientID registrations then True else False,
          db))"

definition UpdateMileStoneByDoctor ::
  "Env \<Rightarrow> Ctx \<Rightarrow> DB \<Rightarrow> (error + nat) \<times> MileStone \<times> DB" where
  "UpdateMileStoneByDoctor env c db =
     (let (access, db) = DoctorAccessToMileStone env c db
      in if access then (Inl (Error 403 ''unauthorized'' NoData), zero_MileStone, db)
         else
           (let (found, db) = First_MileStone_str env db (QueryParam c ''mileStoneID'');
                milestone = or_zero zero_MileStone found
            in (case ParseBool (Param c ''checked'') of
                  None \<Rightarrow> (Inl (Error 400 ''error'' GoError), milestone, db)
                | Some checked \<Rightarrow>
                    (Inr 200,
                     milestone\<lparr>ms_Checked := checked,
                       ms_Activity := QueryParam c ''activity''\<rparr>,
                     db))))"

definition DeleteMileStoneByDoctor :: "Env \<Rightarrow> Ctx \<Rightarrow> DB \<Rightarrow> (error + nat) \<times> DB" where
  "DeleteMileStoneByDoctor env c db =
     (let (access, db) = DoctorAccessToMileStone env c db
      in if access then (Inl (Error 403 ''unauthorized'' NoData), db)
         else (Inr 200, Delete_MileStone_str env db (Param c ''mileStoneID'')))"

section \<open>Two views of CreateRegistration used in the proofs\<close>

text \<open>
  The checks of the handler before \<open>registrationMutex.Lock()\<close>, as one predicate: the
  body binds, the half day is valid, the department and the patient are found, and no
  registration that the duplicate lookup returns is other than terminated. The lemmas
  \<open>CreateRegistration_early\<close> and \<open>CreateRegistration_late\<close> tie it to the handler.
\<close>

definition reaches_admission :: "Env \<Rightarrow> Ctx \<Rightarrow> DB \<Rightarrow> bool" where
  "reaches_admission env c db =
     (case Bind c of
        None \<Rightarrow> False
      | Some submit \<Rightarrow>
          validate_halfday env (sub_HalfDay submit) \<and>
          (case First_Department db (sub_DepartmentID submit) of
             None \<Rightarrow> False
           | Some department \<Rightarrow>
               (case find (\<lambda>p. pat_AccountID p = Get_id c) (patients db) of
                  None \<Rightarrow> False
                | Some patient \<Rightarrow>
                    \<not> list_ex (\<lambda>r. reg_Status r \<noteq> terminated)
                        (filter (where_Registration (duplicate_query department patient submit))
                           (registrations db)))))"

text \<open>
  The registration that the handler passes to \<open>db.Create\<close>, as the store returns it:
  the lemma \<open>admit_shape\<close> shows that this is the row the handler appends.
\<close>

definition inserted :: "DB \<Rightarrow> Department \<Rightarrow> Patient \<Rightarrow> RegistrationSubmitJSON \<Rightarrow> Registration" where
  "inserted db department patient submit =
     (let doctors = filter (\<lambda>d. doc_DepartmentID d = dep_ID department) (doctors db);
          registration = zero_Registration\<lparr>reg_DepartmentID := dep_ID department,
            reg_Year := sub_Year submit, reg_Month := sub_Month submit,
            reg_Day := sub_Day submit, reg_HalfDay := sub_HalfDay submit\<rparr>;
          doctorRegistrationCount = map (\<lambda>doctor. Count_Registration db registration) doctors;
          (minCount, minIndex) = find_min doctorRegistrationCount 0 (MaxInt64, - 1)
      in fst (Create_Registration db
                (registration\<lparr>reg_PatientID := pat_ID patient,
                   reg_DoctorID := doc_ID (doctors ! nat minIndex)\<rparr>)))"

section \<open>Sequences of admission attempts\<close>


text \<open>The schedule row that the handler's lookup finds for a request, if any.\<close>

definition slot_of :: "Ctx \<Rightarrow> DB \<Rightarrow> DepartmentSchedule option" where
  "slot_of c db =
     (case Bind c of
        None \<Rightarrow> None
      | Some submit \<Rightarrow>
          (case First_Department db (sub_DepartmentID submit) of
             None \<Rightarrow> None
           | Some department \<Rightarrow>
               find (where_DepartmentSchedule (schedule_query department submit))
                 (schedules db)))"

text \<open>One request after the other, each on the database the one before left.\<close>

fun run :: "(Env \<times> Ctx) list \<Rightarrow> DB \<Rightarrow> DB" where
  "run [] db = db"
| "run ((env, c) # rest) db = run rest (fst (snd (CreateRegistration env c db)))"




text \<open>
  The load of a doctor in the words of the specification: the doctor's own registrations
  of the same date and half day that are not terminated.
\<close>

definition spec_load :: "DB \<Rightarrow> uint \<Rightarrow> RegistrationSubmitJSON \<Rightarrow> nat" where
  "spec_load db doctorID submit =
     length (filter (\<lambda>r. reg_DoctorID r = doctorID \<and> reg_Year r = sub_Year submit
                        \<and> reg_Month r = sub_Month submit \<and> reg_Day r = sub_Day submit
                        \<and> reg_HalfDay r = sub_HalfDay submit \<and> reg_Status r \<noteq> terminated)
               (registrations db))"

text \<open>
  The registrations with the department, patient, date and half day of a request,
  compared field by field.
\<close>

definition same_tuple :: "Department \<Rightarrow> Patient \<Rightarrow> RegistrationSubmitJSON \<Rightarrow> Registration \<Rightarrow> bool" where
  "same_tuple department patient submit r \<longleftrightarrow>
     reg_DepartmentID r = dep_ID department \<and> reg_PatientID r = pat_ID patient \<and>
     reg_Year r = sub_Year submit \<and> reg_Month r = sub_Month submit \<and>
     reg_Day r = sub_Day submit \<and> reg_HalfDay r = sub_HalfDay submit"

text \<open>
  The request parameters for which \<open>db.First\<close> and \<open>db.Delete\<close> are a lookup by
  primary key or no condition at all: the empty string and the strings that
  \<open>strconv.Atoi\<close> accepts.
\<close>

definition key_or_empty :: "string \<Rightarrow> bool" where
  "key_or_empty s \<longleftrightarrow> s = [] \<or> Atoi s \<noteq> None"

section \<open>Concrete inputs\<close>

text \<open>
  Every half day of the enumeration is valid, every schedule is valid, the store's
  writes succeed, and the store answers a condition that is not a number with no row
  and leaves the table as it is.
\<close>

definition example_env :: Env where
  "example_env = \<lparr>validate_halfday = (\<lambda>h. h \<in> set [morning, afternoon, whole]),
     validateSchedule = (\<lambda>s. True), Create_fails = False, Save_fails = False,
     raw_First_MileStone = (\<lambda>str rows. (None, rows)),
     raw_First_Registration = (\<lambda>str rows. (None, rows)),
     raw_Delete_MileStone = (\<lambda>str rows. rows)\<rparr>"

definition example_registration :: Registration where
  "example_registration = \<lparr>reg_ID = 1, reg_DoctorID = 1, reg_PatientID = 1,
     reg_DepartmentID = 1, reg_Year = 2024, reg_Month = 5, reg_Day = 1, reg_HalfDay = morning,
     reg_Status = committed, reg_TerminatedCause = []\<rparr>"

definition example_schedule :: DepartmentSchedule where
  "example_schedule = \<lparr>sch_ID = 1, sch_DepartmentID = 1, sch_Year = 2024, sch_Month = 5,
     sch_Day = 1, sch_HalfDay = morning, sch_Capacity = 2, sch_Current = 1\<rparr>"

text \<open>
  One department with the doctors 1 and 2 (in this order), the patients 1 and 2 with the
  accounts 10 and 20, one slot of capacity 2 that holds the registration of patient 1
  with doctor 1, and one milestone of this registration.
\<close>

definition example_db :: DB where
  "example_db = \<lparr>departments = [\<lparr>dep_ID = 1, dep_Name = ''Orthopedics'', dep_Detail = []\<rparr>],
     patients = [\<lparr>pat_ID = 1, pat_AccountID = 10\<rparr>, \<lparr>pat_ID = 2, pat_AccountID = 20\<rparr>],
     doctors = [\<lparr>doc_ID = 1, doc_AccountID = 100, doc_DepartmentID = 1\<rparr>,
                \<lparr>doc_ID = 2, doc_AccountID = 200, doc_DepartmentID = 1\<rparr>],
     accounts = [],
     registrations = [example_registration],
     schedules = [example_schedule],
     milestones = [\<lparr>ms_ID = 1, ms_RegistrationID = 1, ms_Activity = ''x-ray'',
                     ms_Checked = False\<rparr>]\<rparr>"

definition example_submit :: "go_int \<Rightarrow> RegistrationSubmitJSON" where
  "example_submit year = \<lparr>sub_DepartmentID = 1, sub_Year = year, sub_Month = 5, sub_Day = 1,
     sub_HalfDay = morning\<rparr>"

definition params :: "(string \<times> string) list \<Rightarrow> string \<Rightarrow> string" where
  "params kvs k = (case map_of kvs k of None \<Rightarrow> [] | Some v \<Rightarrow> v)"

text \<open>The admission request of the account \<open>account\<close> for the slot of the year \<open>year\<close>.\<close>

definition admission_request :: "uint \<Rightarrow> go_int \<Rightarrow> Ctx" where
  "admission_request account year = \<lparr>Param = (\<lambda>k. []), QueryParam = (\<lambda>k. []),
     Bind = Some (example_submit year), Get_id = account\<rparr>"

text \<open>The request to delete milestone 1 by the doctor \<open>doctorID\<close>.\<close>

definition delete_request :: "string \<Rightarrow> Ctx" where
  "delete_request doctorID = \<lparr>Param = params [(''mileStoneID'', ''1''), (''DoctorID'', doctorID)],
     QueryParam = (\<lambda>k. []), Bind = None, Get_id = 0\<rparr>"

text \<open>
  The request of doctor 2 to check milestone 1 with the activity \<open>done\<close>.
\<close>

definition update_request :: Ctx where
  "update_request = \<lparr>Param = params [(''mileStoneID'', ''1''), (''DoctorID'', ''2''),
                                       (''checked'', ''true'')],
     QueryParam = params [(''mileStoneID'', ''1''), (''activity'', ''done'')],
     Bind = None, Get_id = 0\<rparr>"

text \<open>
  A condition that carries a second statement, and a store that runs it: the first
  statement returns no row and the second checks every milestone.
\<close>

definition stacked_condition :: string where
  "stacked_condition = ''0; UPDATE mile_stones SET checked = 1 --''"

definition stacking_env :: Env where
  "stacking_env = example_env\<lparr>raw_First_MileStone :=
     (\<lambda>str rows. if str = stacked_condition
                  then (None, map (\<lambda>m. m\<lparr>ms_Checked := True\<rparr>) rows)
                  else (None, rows))\<rparr>"

text \<open>
  The request of doctor 2 on milestone 1 whose \<open>mileStoneID\<close> query parameter is the
  condition above.
\<close>

definition stacked_request :: Ctx where
  "stacked_request = \<lparr>Param = params [(''mileStoneID'', ''1''), (''DoctorID'', ''2'')],
     QueryParam = params [(''mileStoneID'', stacked_condition)],
     Bind = None, Get_id = 0\<rparr>"

text \<open>The request to move registration 1 to \<open>status\<close> with the cause \<open>cause\<close>.\<close>

definition status_request :: "string \<Rightarrow> string \<Rightarrow> Ctx" where
  "status_request status cause = \<lparr>Param = (\<lambda>k. []),
     QueryParam = params [(''registrationID'', ''1''), (''status'', status),
                          (''terminatedCause'', cause)],
     Bind = None, Get_id = 0\<rparr>"

text \<open>The example database with registration 1 terminated.\<close>

definition terminated_db :: DB where
  "terminated_db = example_db\<lparr>registrations :=
     [example_registration\<lparr>reg_Status := terminated, reg_TerminatedCause := ''moved''\<rparr>]\<rparr>"

text \<open>The example database with the slot full, and with an empty slot of capacity 1.\<close>

definition full_db :: DB where
  "full_db = example_db\<lparr>schedules := [example_schedule\<lparr>sch_Current := 2\<rparr>]\<rparr>"

definition single_slot :: DepartmentSchedule where
  "single_slot = example_schedule\<lparr>sch_Capacity := 1, sch_Current := 0\<rparr>"

definition single_slot_db :: DB where
  "single_slot_db = example_db\<lparr>registrations := [], schedules := [single_slot]\<rparr>"

text \<open>The store fails to save the schedule.\<close>

definition failing_save_env :: Env where
  "failing_save_env = example_env\<lparr>Save_fails := True\<rparr>"

text \<open>
  Two admission requests for the slot, by the patients 1 and 2; the save of the schedule
  fails on the first.
\<close>

definition two_attempts :: "(Env \<times> Ctx) list" where
  "two_attempts = [(failing_save_env, admission_request 10 2024),
                   (example_env, admission_request 20 2024)]"

lemmas example_defs = example_env_def example_db_def example_registration_def
  example_schedule_def example_submit_def admission_request_def delete_request_def
  status_request_def params_def terminated_db_def update_request_def
  stacked_condition_def stacking_env_def stacked_request_def
  full_db_def single_slot_def single_slot_db_def failing_save_env_def two_attempts_def

lemmas enum_defs = morning_def afternoon_def whole_def committed_def terminated_def accepted_def

lemmas zero_defs = zero_Registration_def zero_DepartmentSchedule_def zero_Account_def
  zero_Doctor_def zero_MileStone_def

lemmas strconv_defs = ParseUint_def ParseBool_def digit_def StrToUInt_def Atoi_def

lemmas store_defs = where_Registration_def where_DepartmentSchedule_def Count_Registration_def
  next_ID_def Create_Registration_def Create_MileStone_def Save_DepartmentSchedule_def
  First_Registration_def First_MileStone_def First_Doctor_def First_Account_def
  First_Department_def First_Registration_str_def First_MileStone_str_def
  Delete_MileStone_str_def or_zero_def

lemmas admission_defs = CreateRegistration_def admit_def duplicate_query_def schedule_query_def
  success_of_def MaxInt64_def

section \<open>Status updates and milestones\<close>



lemma First_MileStone_str_key:
  "key_or_empty s \<Longrightarrow> snd (First_MileStone_str env db s) = db"
  by (auto simp: First_MileStone_str_def key_or_empty_def)


lemma DoctorAccessToMileStone_key:
  "key_or_empty (Param c ''mileStoneID'') \<Longrightarrow> snd (DoctorAccessToMileStone env c db) = db"
  using First_MileStone_str_key [of "Param c ''mileStoneID''" env db]
  by (auto simp: DoctorAccessToMileStone_def Let_def split: prod.split)


lemma UpdateMileStoneByDoctor_key:
  assumes "key_or_empty (Param c ''mileStoneID'')"
    and "key_or_empty (QueryParam c ''mileStoneID'')"
  shows "snd (snd (UpdateMileStoneByDoctor env c db)) = db"
proof -
  obtain access db1 where a: "DoctorAccessToMileStone env c db = (access, db1)"
    by (cases "DoctorAccessToMileStone env c db")
  have 1: "db1 = db"
    using DoctorAccessToMileStone_key [OF assms(1), of env db] by (simp add: a)
  have 2: "snd (First_MileStone_str env db (QueryParam c ''mileStoneID'')) = db"
    using assms(2) by (rule First_MileStone_str_key)
  show ?thesis
    using 2 by (auto simp: UpdateMileStoneByDoctor_def a 1 Let_def split: option.split prod.split)
qed

lemma StrToUInt_zero: "StrToUInt ''0'' = 0"
  by (simp add: StrToUInt_def Atoi_def digit_def)

text \<open>
  Claim C9, as amended: for every call of UpdateMileStoneByDoctor whose \<open>mileStoneID\<close>
  path parameter and \<open>mileStoneID\<close> query parameter are empty or a number, whatever the
  handler answers, the database after the call is the database before it, so every
  stored milestone has the activity and the checked flag it had. When the answer is the
  success answer, the new activity and the new checked flag are in the struct the
  handler holds in memory, and only there.
\<close>

theorem UpdateMileStoneByDoctor_store_unchanged:
  assumes "key_or_empty (Param c ''mileStoneID'')"
    and "key_or_empty (QueryParam c ''mileStoneID'')"
  shows "snd (snd (UpdateMileStoneByDoctor env c db)) = db
   \<and> First_MileStone (snd (snd (UpdateMileStoneByDoctor env c db))) k = First_MileStone db k
   \<and> (fst (UpdateMileStoneByDoctor env c db) = Inr 200 \<longrightarrow>
        ms_Activity (fst (snd (UpdateMileStoneByDoctor env c db))) = QueryParam c ''activity''
        \<and> ParseBool (Param c ''checked'')
            = Some (ms_Checked (fst (snd (UpdateMileStoneByDoctor env c db)))))"
proof -
  have "fst (UpdateMileStoneByDoctor env c db) = Inr 200 \<longrightarrow>
        ms_Activity (fst (snd (UpdateMileStoneByDoctor env c db))) = QueryParam c ''activity''
        \<and> ParseBool (Param c ''checked'')
            = Some (ms_Checked (fst (snd (UpdateMileStoneByDoctor env c db))))"
    by (simp add: UpdateMileStoneByDoctor_def Let_def split: option.split prod.split)
  then show ?thesis
    by (simp add: UpdateMileStoneByDoctor_key [OF assms])
qed

theorem UpdateMileStoneByDoctor_store_unchanged_witness:
  "key_or_empty (Param update_request ''mileStoneID'')
   \<and> key_or_empty (QueryParam update_request ''mileStoneID'')
   \<and> UpdateMileStoneByDoctor example_env update_request example_db
     = (Inr 200,
        \<lparr>ms_ID = 1, ms_RegistrationID = 1, ms_Activity = ''done'', ms_Checked = True\<rparr>,
        example_db)
   \<and> First_MileStone example_db 1
       = Some \<lparr>ms_ID = 1, ms_RegistrationID = 1, ms_Activity = ''x-ray'', ms_Checked = False\<rparr>"
proof -
  have p: "key_or_empty (Param update_request ''mileStoneID'')"
    by (simp add: key_or_empty_def example_defs Atoi_def digit_def)
  have q: "key_or_empty (QueryParam update_request ''mileStoneID'')"
    by (simp add: key_or_empty_def example_defs Atoi_def digit_def)
  have a: "fst (UpdateMileStoneByDoctor example_env update_request example_db) = Inr 200"
    by (simp add: example_defs enum_defs strconv_defs store_defs zero_defs
        UpdateMileStoneByDoctor_def DoctorAccessToMileStone_def Let_def)
  have b: "fst (snd (UpdateMileStoneByDoctor example_env update_request example_db))
      = \<lparr>ms_ID = 1, ms_RegistrationID = 1, ms_Activity = ''done'', ms_Checked = True\<rparr>"
    by (simp add: example_defs enum_defs strconv_defs store_defs zero_defs
        UpdateMileStoneByDoctor_def DoctorAccessToMileStone_def Let_def)
  have c: "First_MileStone example_db 1
      = Some \<lparr>ms_ID = 1, ms_RegistrationID = 1, ms_Activity = ''x-ray'', ms_Checked = False\<rparr>"
    by (simp add: example_defs First_MileStone_def)
  show ?thesis
    using p q a b c
      UpdateMileStoneByDoctor_store_unchanged [OF p q, of example_env example_db 1]
    by (simp add: prod_eq_iff)
qed

text \<open>
  The claim as stated fails for a \<open>mileStoneID\<close> query parameter that is a condition
  and not a number, on a store that runs the statement the condition carries: the
  handler passes the parameter to \<open>db.First\<close>, and milestone 1, stored unchecked, is
  stored checked after the call.
\<close>

theorem UpdateMileStoneByDoctor_counterexample:
  "map ms_Checked (milestones example_db) = [False]
   \<and> map ms_Checked
        (milestones (snd (snd (UpdateMileStoneByDoctor stacking_env stacked_request example_db))))
       = [True]"
  by (simp add: example_defs enum_defs strconv_defs store_defs zero_defs
      UpdateMileStoneByDoctor_def DoctorAccessToMileStone_def Let_def)

text \<open>
  Claim C10: StrToUInt answers 0 for every string that Atoi does not parse. So each of
  the three access helpers answers, for a malformed or missing (empty) DoctorID or
  PatientID parameter, exactly what it answers for the parameter \<open>0\<close>: it compares 0
  with the id stored in the registration, and has no way to reject the request.
\<close>

theorem StrToUInt_malformed_is_zero:
  assumes "Atoi str = None"
  shows "StrToUInt str = 0
     \<and> DoctorAccessToMileStone env (c\<lparr>Param := (Param c)(''DoctorID'' := str)\<rparr>) db
       = DoctorAccessToMileStone env (c\<lparr>Param := (Param c)(''DoctorID'' := ''0'')\<rparr>) db
     \<and> DoctorAccessToRegistration env (c\<lparr>Param := (Param c)(''DoctorID'' := str)\<rparr>) db
       = DoctorAccessToRegistration env (c\<lparr>Param := (Param c)(''DoctorID'' := ''0'')\<rparr>) db
     \<and> PatientAccessToRegistration env (c\<lparr>Param := (Param c)(''PatientID'' := str)\<rparr>) db
       = PatientAccessToRegistration env (c\<lparr>Param := (Param c)(''PatientID'' := ''0'')\<rparr>) db"
  using assms StrToUInt_zero
  by (simp add: DoctorAccessToMileStone_def DoctorAccessToRegistration_def
      PatientAccessToRegistration_def StrToUInt_def)

theorem StrToUInt_malformed_is_zero_witness:
  "Atoi ''abc'' = None \<and> StrToUInt ''abc'' = 0
   \<and> DoctorAccessToMileStone example_env
        ((delete_request [])\<lparr>Param := (Param (delete_request []))(''DoctorID'' := ''abc'')\<rparr>)
        example_db
     = DoctorAccessToMileStone example_env
        ((delete_request [])\<lparr>Param := (Param (delete_request []))(''DoctorID'' := ''0'')\<rparr>)
        example_db"
proof -
  have h: "Atoi ''abc'' = None"
    by (simp add: Atoi_def digit_def)
  show ?thesis
    using h StrToUInt_malformed_is_zero [OF h, of example_env "delete_request []" example_db]
    by simp
qed




text \<open>
  Claim C5, at the request to move registration 1 (stored as committed) to terminated
  with the cause \<open>moved\<close>: the handler answers 201 and holds the new status and cause
  in memory, and the stored registration is still committed, with an empty cause.
\<close>

theorem UpdateRegistrationStatus_not_stored:
  "UpdateRegistrationStatus (status_request ''terminated'' ''moved'') example_db
     = (Inr 201,
        Some (example_registration\<lparr>reg_Status := terminated, reg_TerminatedCause := ''moved''\<rparr>),
        example_db)
   \<and> map_option reg_Status (First_Registration example_db 1) = Some committed
   \<and> map_option reg_TerminatedCause (First_Registration example_db 1) = Some []"
  by (simp add: example_defs enum_defs strconv_defs UpdateRegistrationStatus_def
      First_Registration_def Let_def)

text \<open>
  The other half of C5 holds: with an empty cause the handler answers 400 with the text
  \<open>Missing terminated causes\<close>, and the database is the one before.
\<close>

lemma UpdateRegistrationStatus_missing_cause:
  assumes "ParseUint (QueryParam c ''registrationID'') = Some k"
    and "First_Registration db k = Some r"
    and "QueryParam c ''status'' = terminated"
    and "QueryParam c ''terminatedCause'' = []"
  shows "fst (UpdateRegistrationStatus c db) = Inl (Error 400 ''ok'' (Text ''Missing terminated causes''))
     \<and> snd (snd (UpdateRegistrationStatus c db)) = db"
  using assms by (simp add: UpdateRegistrationStatus_def Let_def)

text \<open>
  Claim C4, at milestone 1 of registration 1, which is assigned to doctor 1: doctor 2
  deletes the milestone and is answered 200, and doctor 1 is answered 403
  \<open>unauthorized\<close> by the delete handler and by the update handler.
\<close>

theorem MileStone_access_inverted:
  "reg_DoctorID example_registration = 1
   \<and> DeleteMileStoneByDoctor example_env (delete_request ''2'') example_db
       = (Inr 200, example_db\<lparr>milestones := []\<rparr>)
   \<and> DeleteMileStoneByDoctor example_env (delete_request ''1'') example_db
       = (Inl (Error 403 ''unauthorized'' NoData), example_db)
   \<and> fst (UpdateMileStoneByDoctor example_env (delete_request ''1'') example_db)
       = Inl (Error 403 ''unauthorized'' NoData)"
  by (simp add: example_defs enum_defs strconv_defs store_defs zero_defs
      DeleteMileStoneByDoctor_def UpdateMileStoneByDoctor_def DoctorAccessToMileStone_def Let_def)

section \<open>The choice of the doctor\<close>

text \<open>The index the loop returns is the initial one or an index of the list.\<close>

lemma find_min_index:
  "find_min ns i (m, j) = (m', j') \<Longrightarrow> j' = j \<or> (i \<le> j' \<and> j' < i + int (length ns))"
proof (induction ns arbitrary: i m j)
  case Nil
  then show ?case by simp
next
  case (Cons n ns)
  show ?case
  proof (cases "m > n")
    case True
    with Cons.prems have "find_min ns (i + 1) (n, i) = (m', j')" by simp
    from Cons.IH [OF this] show ?thesis by auto
  next
    case False
    with Cons.prems have "find_min ns (i + 1) (m, j) = (m', j')" by simp
    from Cons.IH [OF this] show ?thesis by auto
  qed
qed

text \<open>
  When every count is the same number \<open>k\<close>, the loop keeps the first index, or the
  initial pair when the list is empty or \<open>k\<close> is not below the initial minimum.
\<close>

lemma find_min_replicate:
  "find_min (replicate n k) i (m, j) = (if n = 0 \<or> \<not> m > k then (m, j) else (k, i))"
  by (induction n arbitrary: i m j) auto

text \<open>
  The doctor of the registration that the handler inserts is the first doctor of the
  department, in table order, whatever the doctors' registrations are.
\<close>

lemma inserted_first_doctor:
  assumes "filter (\<lambda>d. doc_DepartmentID d = dep_ID department) (doctors db) = d # ds"
    and "length (registrations db) < 2 ^ 63 - 1"
  shows "reg_DoctorID (inserted db department patient submit) = doc_ID d"
proof -
  let ?q = "zero_Registration\<lparr>reg_DepartmentID := dep_ID department,
            reg_Year := sub_Year submit, reg_Month := sub_Month submit,
            reg_Day := sub_Day submit, reg_HalfDay := sub_HalfDay submit\<rparr>"
  have "length (filter (where_Registration ?q) (registrations db)) < 2 ^ 63 - 1"
    using assms(2) by (rule le_less_trans [OF length_filter_le])
  then have lt: "Count_Registration db ?q < MaxInt64"
    by (simp add: Count_Registration_def MaxInt64_def)
  have "map (\<lambda>doctor. Count_Registration db ?q) (d # ds)
      = replicate (Suc (length ds)) (Count_Registration db ?q)"
    by (simp add: map_replicate_const)
  then have "find_min (map (\<lambda>doctor. Count_Registration db ?q) (d # ds)) 0 (MaxInt64, - 1)
      = (Count_Registration db ?q, 0)"
    using lt by (simp only: find_min_replicate) simp
  then show ?thesis
    using assms(1) by (simp add: inserted_def Let_def Create_Registration_def)
qed

lemma find_min_in_range:
  assumes "find_min (map f ds) 0 (MaxInt64, - 1) = (m, j)" and "j \<noteq> - 1"
  shows "0 \<le> j \<and> nat j < length ds"
  using find_min_index [OF assms(1)] assms(2) by auto

text \<open>
  Claim C2, at the admission of patient 2 (account 20) to the slot in which doctor 1
  has one registration that is not terminated and doctor 2 has none: the admission
  succeeds and the new registration is assigned to doctor 1.
\<close>

theorem CreateRegistration_ignores_load:
  "spec_load example_db 1 (example_submit 2024) = 1
   \<and> spec_load example_db 2 (example_submit 2024) = 0
   \<and> \<not> isl (fst (CreateRegistration example_env (admission_request 20 2024) example_db))
   \<and> registrations (fst (snd (CreateRegistration example_env (admission_request 20 2024) example_db)))
       = [example_registration,
          example_registration\<lparr>reg_ID := 2, reg_PatientID := 2, reg_DoctorID := 1\<rparr>]"
  by (simp add: example_defs enum_defs store_defs zero_defs admission_defs spec_load_def Let_def)

section \<open>Admission\<close>

lemma inserted_Status: "reg_Status (inserted db department patient submit) = committed"
  by (simp add: inserted_def Let_def Create_Registration_def zero_Registration_def split: prod.split)

lemma inserted_same_tuple: "same_tuple department patient submit (inserted db department patient submit)"
  by (simp add: inserted_def Let_def Create_Registration_def zero_Registration_def same_tuple_def split: prod.split)

lemma admit_shape:
  assumes "admit env db department patient submit = (res, db', evs)"
  shows "(isl res \<and> db' = db \<and> evs = [Lock, Unlock])
    \<or> (\<exists>s. find (where_DepartmentSchedule (schedule_query department submit)) (schedules db) = Some s
          \<and> validateSchedule env s \<and> sint (sch_Current s) < sint (sch_Capacity s)
          \<and> \<not> Create_fails env
          \<and> ((Save_fails env \<and> res = Inl (Error 400 ''error'' (Const InvalidSchedule))
                \<and> db' = db\<lparr>registrations := registrations db @ [inserted db department patient submit]\<rparr>
                \<and> evs = [Lock, db_Create, Unlock])
             \<or> (\<not> Save_fails env \<and> \<not> isl res
                \<and> db' = Save_DepartmentSchedule
                          (db\<lparr>registrations := registrations db @ [inserted db department patient submit]\<rparr>)
                          (s\<lparr>sch_Current := sch_Current s + 1\<rparr>)
                \<and> evs = [Lock, db_Create, db_Save, Unlock])))"
  using assms
  by (auto simp: admit_def inserted_def Let_def Create_Registration_def
      split: option.splits if_splits prod.splits)

lemma CreateRegistration_early:
  assumes "\<not> reaches_admission env c db"
  shows "isl (fst (CreateRegistration env c db)) \<and> fst (snd (CreateRegistration env c db)) = db
     \<and> snd (snd (CreateRegistration env c db)) = []"
  using assms
  by (auto simp: CreateRegistration_def reaches_admission_def Let_def split: option.splits)

lemma CreateRegistration_late:
  assumes "reaches_admission env c db"
  shows "\<exists>submit department patient. Bind c = Some submit
     \<and> validate_halfday env (sub_HalfDay submit)
     \<and> First_Department db (sub_DepartmentID submit) = Some department
     \<and> find (\<lambda>p. pat_AccountID p = Get_id c) (patients db) = Some patient
     \<and> CreateRegistration env c db = admit env db department patient submit
     \<and> slot_of c db = find (where_DepartmentSchedule (schedule_query department submit)) (schedules db)"
  using assms
  by (auto simp: CreateRegistration_def reaches_admission_def slot_of_def Let_def split: option.splits)



text \<open>The three ways a call of CreateRegistration ends.\<close>

lemma CreateRegistration_shape:
  "(isl (fst (CreateRegistration env c db)) \<and> fst (snd (CreateRegistration env c db)) = db
      \<and> snd (snd (CreateRegistration env c db)) \<in> {[], [Lock, Unlock]})
   \<or> (\<exists>r. isl (fst (CreateRegistration env c db)) \<and> Save_fails env \<and> reg_Status r = committed
         \<and> fst (snd (CreateRegistration env c db)) = db\<lparr>registrations := registrations db @ [r]\<rparr>
         \<and> snd (snd (CreateRegistration env c db)) = [Lock, db_Create, Unlock])
   \<or> (\<exists>s r. \<not> isl (fst (CreateRegistration env c db)) \<and> slot_of c db = Some s
         \<and> validateSchedule env s \<and> sint (sch_Current s) < sint (sch_Capacity s)
         \<and> reg_Status r = committed
         \<and> fst (snd (CreateRegistration env c db))
             = Save_DepartmentSchedule (db\<lparr>registrations := registrations db @ [r]\<rparr>)
                 (s\<lparr>sch_Current := sch_Current s + 1\<rparr>)
         \<and> snd (snd (CreateRegistration env c db)) = [Lock, db_Create, db_Save, Unlock])"
proof (cases "reaches_admission env c db")
  case False
  then show ?thesis
    using CreateRegistration_early [of env c db] by simp
next
  case True
  then obtain submit department patient where
    eq: "CreateRegistration env c db = admit env db department patient submit" and
    slot: "slot_of c db = find (where_DepartmentSchedule (schedule_query department submit)) (schedules db)"
    using CreateRegistration_late by blast
  obtain res db' evs where a: "admit env db department patient submit = (res, db', evs)"
    by (cases "admit env db department patient submit") auto
  show ?thesis
    using admit_shape [OF a] inserted_Status [of db department patient submit]
    unfolding eq a slot
    by (elim disjE exE conjE) (simp_all, blast+)
qed




lemma CreateRegistration_schedule_ids:
  "map sch_ID (schedules (fst (snd (CreateRegistration env c db)))) = map sch_ID (schedules db)"
  using CreateRegistration_shape [of env c db]
  by (auto simp: Save_DepartmentSchedule_def)



lemma run_schedule_ids: "map sch_ID (schedules (run atts db)) = map sch_ID (schedules db)"
  by (induction atts arbitrary: db) (auto simp: CreateRegistration_schedule_ids)




lemma admit_full:
  assumes "find (where_DepartmentSchedule (schedule_query department submit)) (schedules db) = Some s"
    and "validateSchedule env s" and "sint (sch_Capacity s) \<le> sint (sch_Current s)"
  shows "admit env db department patient submit
     = (Inl (Error 400 ''error'' (Const NotEnoughCapacity)), db, [Lock, Unlock])"
  using assms by (simp add: admit_def)

text \<open>
  Claim C7: a request whose schedule lookup finds a row that validateSchedule accepts
  and whose occupancy is at least its capacity is answered with an error and leaves the
  database, so the occupancy, as it was. The error is NotEnoughCapacity, with the mutex
  taken and released, when the request comes to the capacity check, that is, when it
  passes the steps that come first (the half day, the patient, the duplicates);
  otherwise it is the error of one of these steps: InvalidSubmitFormat,
  PatientNotFound or DuplicateRegistration.
\<close>

theorem full_slot_refused:
  assumes "slot_of c db = Some s" and "validateSchedule env s"
    and "sint (sch_Capacity s) \<le> sint (sch_Current s)"
  shows "isl (fst (CreateRegistration env c db))
     \<and> fst (snd (CreateRegistration env c db)) = db
     \<and> (reaches_admission env c db \<longrightarrow>
          CreateRegistration env c db
            = (Inl (Error 400 ''error'' (Const NotEnoughCapacity)), db, [Lock, Unlock]))
     \<and> (\<not> reaches_admission env c db \<longrightarrow>
          fst (CreateRegistration env c db)
            \<in> {Inl (Error 400 ''error'' (Const InvalidSubmitFormat)),
                Inl (Error 400 ''error'' (Const PatientNotFound)),
                Inl (Error 400 ''error'' (Const DuplicateRegistration))})"
proof (cases "reaches_admission env c db")
  case False
  have "fst (CreateRegistration env c db)
      \<in> {Inl (Error 400 ''error'' (Const InvalidSubmitFormat)),
          Inl (Error 400 ''error'' (Const PatientNotFound)),
          Inl (Error 400 ''error'' (Const DuplicateRegistration))}"
    using False assms(1)
    by (auto simp: CreateRegistration_def reaches_admission_def slot_of_def Let_def
        split: option.splits)
  with False show ?thesis
    using CreateRegistration_early [of env c db] by simp
next
  case True
  then obtain submit department patient where
    eq: "CreateRegistration env c db = admit env db department patient submit" and
    slot: "slot_of c db = find (where_DepartmentSchedule (schedule_query department submit)) (schedules db)"
    using CreateRegistration_late by blast
  from slot assms(1)
  have "find (where_DepartmentSchedule (schedule_query department submit)) (schedules db) = Some s"
    by simp
  from admit_full [OF this assms(2,3)] True show ?thesis
    by (simp add: eq)
qed

theorem full_slot_refused_witness:
  "slot_of (admission_request 20 2024) full_db = Some (example_schedule\<lparr>sch_Current := 2\<rparr>)
   \<and> reaches_admission example_env (admission_request 20 2024) full_db
   \<and> CreateRegistration example_env (admission_request 20 2024) full_db
       = (Inl (Error 400 ''error'' (Const NotEnoughCapacity)), full_db, [Lock, Unlock])"
proof -
  let ?s = "example_schedule\<lparr>sch_Current := 2\<rparr>"
  have a: "slot_of (admission_request 20 2024) full_db = Some ?s"
    by (simp add: slot_of_def example_defs enum_defs store_defs zero_defs schedule_query_def)
  have b: "validateSchedule example_env ?s"
    by (simp add: example_env_def)
  have c: "sint (sch_Capacity ?s) \<le> sint (sch_Current ?s)"
    by (simp add: example_schedule_def)
  have d: "reaches_admission example_env (admission_request 20 2024) full_db"
    by (simp add: reaches_admission_def example_defs enum_defs store_defs zero_defs
        duplicate_query_def)
  show ?thesis
    using a d full_slot_refused [OF a b c] by simp
qed

lemma same_tuple_where:
  "same_tuple department patient submit r
     \<Longrightarrow> where_Registration (duplicate_query department patient submit) r"
  by (simp add: same_tuple_def where_Registration_def duplicate_query_def zero_Registration_def)

lemma where_same_tuple:
  assumes "dep_ID department \<noteq> 0" and "pat_ID patient \<noteq> 0" and "sub_Year submit \<noteq> 0"
    and "sub_Month submit \<noteq> 0" and "sub_Day submit \<noteq> 0" and "sub_HalfDay submit \<noteq> []"
  shows "where_Registration (duplicate_query department patient submit) r
     = same_tuple department patient submit r"
  using assms
  by (auto simp: same_tuple_def where_Registration_def duplicate_query_def zero_Registration_def)

lemma admit_not_duplicate:
  "fst (admit env db department patient submit)
     \<noteq> Inl (Error 400 ''error'' (Const DuplicateRegistration))"
  by (simp add: admit_def Let_def split: option.split prod.split)

text \<open>
  The duplicate check, for a request that binds, has a valid half day and whose
  department and patient are found. If a stored registration with the department,
  patient, date and half day of the request is not terminated, the answer is
  DuplicateRegistration, the database is unchanged and the mutex is not touched. If
  every registration that the duplicate lookup returns is terminated, the handler goes
  on to the schedule lookup and its answer is the one of that part, which is never
  DuplicateRegistration; when the ids, the year, the month, the day and the half day
  of the request are not zero values, these are the registrations with the department,
  patient, date and half day of the request.
\<close>

lemma duplicate_check:
  assumes "Bind c = Some submit" and "validate_halfday env (sub_HalfDay submit)"
    and "First_Department db (sub_DepartmentID submit) = Some department"
    and "find (\<lambda>p. pat_AccountID p = Get_id c) (patients db) = Some patient"
  shows "((\<exists>r\<in>set (registrations db). same_tuple department patient submit r
              \<and> reg_Status r \<noteq> terminated) \<longrightarrow>
           CreateRegistration env c db
             = (Inl (Error 400 ''error'' (Const DuplicateRegistration)), db, []))
     \<and> ((\<forall>r\<in>set (registrations db).
            where_Registration (duplicate_query department patient submit) r \<longrightarrow>
            reg_Status r = terminated) \<longrightarrow>
           CreateRegistration env c db = admit env db department patient submit
           \<and> fst (CreateRegistration env c db)
               \<noteq> Inl (Error 400 ''error'' (Const DuplicateRegistration)))
     \<and> (dep_ID department \<noteq> 0 \<and> pat_ID patient \<noteq> 0 \<and> sub_Year submit \<noteq> 0
          \<and> sub_Month submit \<noteq> 0 \<and> sub_Day submit \<noteq> 0 \<and> sub_HalfDay submit \<noteq> [] \<longrightarrow>
         (\<forall>r\<in>set (registrations db). same_tuple department patient submit r \<longrightarrow>
            reg_Status r = terminated) \<longrightarrow>
           CreateRegistration env c db = admit env db department patient submit
           \<and> fst (CreateRegistration env c db)
               \<noteq> Inl (Error 400 ''error'' (Const DuplicateRegistration)))"
proof -
  have active: "CreateRegistration env c db
      = (Inl (Error 400 ''error'' (Const DuplicateRegistration)), db, [])"
    if "\<exists>r\<in>set (registrations db). same_tuple department patient submit r
            \<and> reg_Status r \<noteq> terminated"
  proof -
    from that obtain r where r: "r \<in> set (registrations db)"
      "same_tuple department patient submit r" "reg_Status r \<noteq> terminated"
      by blast
    from r(2) have "where_Registration (duplicate_query department patient submit) r"
      by (rule same_tuple_where)
    with r(1,3) have "list_ex (\<lambda>r. reg_Status r \<noteq> terminated)
        (filter (where_Registration (duplicate_query department patient submit))
           (registrations db))"
      by (auto simp: list_ex_iff)
    with assms show ?thesis
      by (simp add: CreateRegistration_def)
  qed
  have passes: "CreateRegistration env c db = admit env db department patient submit
      \<and> fst (CreateRegistration env c db)
          \<noteq> Inl (Error 400 ''error'' (Const DuplicateRegistration))"
    if all: "\<forall>r\<in>set (registrations db).
        where_Registration (duplicate_query department patient submit) r \<longrightarrow>
        reg_Status r = terminated"
  proof -
    from all have "\<not> list_ex (\<lambda>r. reg_Status r \<noteq> terminated)
        (filter (where_Registration (duplicate_query department patient submit))
           (registrations db))"
      by (auto simp: list_ex_iff)
    with assms have eq: "CreateRegistration env c db = admit env db department patient submit"
      by (simp add: CreateRegistration_def)
    then show ?thesis
      by (simp add: admit_not_duplicate)
  qed
  have nonzero: "CreateRegistration env c db = admit env db department patient submit
      \<and> fst (CreateRegistration env c db)
          \<noteq> Inl (Error 400 ''error'' (Const DuplicateRegistration))"
    if nz: "dep_ID department \<noteq> 0 \<and> pat_ID patient \<noteq> 0 \<and> sub_Year submit \<noteq> 0
          \<and> sub_Month submit \<noteq> 0 \<and> sub_Day submit \<noteq> 0 \<and> sub_HalfDay submit \<noteq> []"
      and all: "\<forall>r\<in>set (registrations db). same_tuple department patient submit r \<longrightarrow>
            reg_Status r = terminated"
  proof -
    from nz have "where_Registration (duplicate_query department patient submit) r
        = same_tuple department patient submit r" for r
      by (simp add: where_same_tuple)
    with all show ?thesis
      by (intro passes) simp
  qed
  from active passes nonzero show ?thesis
    by blast
qed

text \<open>
  Claim C6, at a request of patient 1 with the year 0: the only stored registration of
  patient 1 is of the year 2024, so no stored registration has the department, patient,
  date and half day of the request. The lookup is built from a struct with the year
  set to 0, which is left out of the comparison; it returns the registration of 2024,
  which is committed, and the answer is DuplicateRegistration.
\<close>

theorem duplicate_check_zero_year:
  "registrations example_db = [example_registration]
   \<and> reg_Year example_registration = 2024
   \<and> Bind (admission_request 10 0) = Some (example_submit 0)
   \<and> sub_Year (example_submit 0) = 0
   \<and> filter (same_tuple \<lparr>dep_ID = 1, dep_Name = ''Orthopedics'', dep_Detail = []\<rparr>
               \<lparr>pat_ID = 1, pat_AccountID = 10\<rparr> (example_submit 0))
        (registrations example_db) = []
   \<and> CreateRegistration example_env (admission_request 10 0) example_db
       = (Inl (Error 400 ''error'' (Const DuplicateRegistration)), example_db, [])"
  by (simp add: same_tuple_def example_defs enum_defs store_defs zero_defs admission_defs Let_def)

text \<open>
  Claim C3, as amended: a call of CreateRegistration that answers with an error leaves
  the schedule table, so every occupancy, unchanged. It leaves the whole database
  unchanged, unless the store failed to save the schedule after the insert: then the
  new registration, with status committed, is stored and nothing else has changed.
\<close>

theorem failed_admission_effect:
  assumes "isl (fst (CreateRegistration env c db))"
  shows "schedules (fst (snd (CreateRegistration env c db))) = schedules db
     \<and> (fst (snd (CreateRegistration env c db)) = db
        \<or> (Save_fails env
            \<and> (\<exists>r. reg_Status r = committed
                  \<and> fst (snd (CreateRegistration env c db))
                      = db\<lparr>registrations := registrations db @ [r]\<rparr>)))"
  using assms CreateRegistration_shape [of env c db] by auto

theorem failed_admission_effect_witness:
  "isl (fst (CreateRegistration example_env (admission_request 10 2024) example_db))
   \<and> schedules (fst (snd (CreateRegistration example_env (admission_request 10 2024) example_db)))
       = schedules example_db
   \<and> fst (snd (CreateRegistration example_env (admission_request 10 2024) example_db)) = example_db"
proof -
  have a: "isl (fst (CreateRegistration example_env (admission_request 10 2024) example_db))"
    by (simp add: example_defs enum_defs store_defs zero_defs admission_defs Let_def)
  have b: "\<not> Save_fails example_env"
    by (simp add: example_env_def)
  show ?thesis
    using a b failed_admission_effect [OF a] by blast
qed

text \<open>
  The claim as stated fails when the store inserts the registration and then fails to
  save the schedule: the answer is an error and the registration of patient 2 is stored.
\<close>

theorem failed_admission_counterexample:
  "isl (fst (CreateRegistration failing_save_env (admission_request 20 2024) example_db))
   \<and> registrations example_db = [example_registration]
   \<and> registrations (fst (snd (CreateRegistration failing_save_env (admission_request 20 2024) example_db)))
       = [example_registration,
          example_registration\<lparr>reg_ID := 2, reg_PatientID := 2\<rparr>]
   \<and> schedules (fst (snd (CreateRegistration failing_save_env (admission_request 20 2024) example_db)))
       = [example_schedule]"
  by (simp add: example_defs enum_defs store_defs zero_defs admission_defs Let_def)








end
